theory Spec2Isabelle
  imports Main
begin

section \<open>The QML author adapter (src/qtquick/author.cpp)\<close>

subsection \<open>Objects outside the file\<close>

text \<open>
  Objects are referred to by address; a null pointer is \<open>None\<close>. The adapter only reads
  the objects it points to, so what it reads is supplied by an environment, which may be
  a different one at every call (the engine and its providers change on their own).
\<close>

type_synonym addr = nat

text \<open>
  \<open>KNSCore::Author\<close> (core/author.h): the loaded record, read through its getters
  \<open>id()\<close>, \<open>name()\<close>, \<open>description()\<close>, \<open>homepage()\<close>, \<open>profilepage()\<close> and
  \<open>avatarUrl()\<close>. A \<open>QUrl\<close> is kept as its string; the empty \<open>QUrl{}\<close> is the empty
  string.
\<close>

record CoreAuthor =
  author_id :: string
  author_name :: string
  author_description :: string
  author_homepage :: string
  author_profilepage :: string
  author_avatarUrl :: string

text \<open>
  What the adapter calls on its collaborators, none of which is defined in author.cpp:
  \<^item> \<open>formatKey a b\<close> is \<open>QString::fromLatin1("%1 %2").arg(a).arg(b)\<close> of the Qt library;
  \<^item> \<open>isQuickEngine a\<close>: \<open>qobject_cast<Engine*>\<close> of the object at \<open>a\<close> succeeds;
  \<^item> \<open>quickEngine_engine a\<close>: \<open>Engine::engine()\<close> of the quick engine at \<open>a\<close>, a
    \<open>QObject*\<close>;
  \<^item> \<open>isCoreEngine a\<close>: \<open>qobject_cast<KNSCore::Engine*>\<close> of the object at \<open>a\<close> succeeds;
  \<^item> \<open>coreEngine_provider a i\<close>: \<open>KNSCore::Engine::provider(i)\<close>, a shared pointer;
  \<^item> \<open>coreEngine_defaultProvider a\<close>: \<open>KNSCore::Engine::defaultProvider()\<close>;
  \<^item> \<open>provider_id p\<close>: \<open>KNSCore::Provider::id()\<close>.
\<close>

record Env =
  formatKey :: "string \<Rightarrow> string \<Rightarrow> string"
  isQuickEngine :: "addr \<Rightarrow> bool"
  quickEngine_engine :: "addr \<Rightarrow> addr option"
  isCoreEngine :: "addr \<Rightarrow> bool"
  coreEngine_provider :: "addr \<Rightarrow> string \<Rightarrow> addr option"
  coreEngine_defaultProvider :: "addr \<Rightarrow> addr option"
  provider_id :: "addr \<Rightarrow> string"

subsection \<open>State and effects\<close>

text \<open>
  What the adapter does to the outside: the signals it emits and the
  \<open>provider->loadPerson(username)\<close> requests it issues, in order. \<open>loadPerson\<close> is taken
  as a request that completes later through the provider's \<open>personLoaded\<close> signal.
\<close>

datatype event =
    EngineChanged
  | ProviderIdChanged
  | UsernameChanged
  | DataChanged
  | LoadPerson addr string

datatype error = NullDereference

text \<open>
  The global \<open>allAuthors\<close> hash (lines 36 to 38), the members of \<open>Author::Private\<close>
  (lines 45 to 51), the providers whose \<open>personLoaded\<close> signal is connected to the lambda
  of lines 69 to 72 (one entry per connection), and the effects so far.
\<close>

record World =
  allAuthors :: "string \<rightharpoonup> CoreAuthor"
  componentCompleted :: bool
  engine :: "addr option"
  providerId :: string
  username :: string
  provider :: "addr option"
  connections :: "addr list"
  trace :: "event list"

text \<open>
  The constructor (lines 93 to 100) starts from the member initialisers and connects
  \<open>engineChanged\<close>, \<open>providerIdChanged\<close> and \<open>usernameChanged\<close> to \<open>dataChanged\<close>: each of
  the three is followed by \<open>dataChanged\<close> whenever it is emitted.
\<close>

definition Author_new :: "(string \<rightharpoonup> CoreAuthor) \<Rightarrow> World" where
  "Author_new cache =
     \<lparr>allAuthors = cache, componentCompleted = False, engine = None, providerId = [],
      username = [], provider = None, connections = [], trace = []\<rparr>"

definition emit :: "event \<Rightarrow> World \<Rightarrow> World" where
  "emit s st =
     (if s = EngineChanged \<or> s = ProviderIdChanged \<or> s = UsernameChanged
      then st\<lparr>trace := trace st @ [s, DataChanged]\<rparr>
      else st\<lparr>trace := trace st @ [s]\<rparr>)"

subsection \<open>Author::Private\<close>

text \<open>\<open>author()\<close>, lines 77 to 87: the cached record, or null after asking the provider to load it.\<close>

definition author :: "Env \<Rightarrow> World \<Rightarrow> CoreAuthor option \<times> World" where
  "author env st =
     (case provider st of
        None \<Rightarrow> (None, st)
      | Some p \<Rightarrow>
          if username st \<noteq> [] then
            (case allAuthors st (formatKey env (provider_id env p) (username st)) of
               None \<Rightarrow> (None, st\<lparr>trace := trace st @ [LoadPerson p (username st)]\<rparr>)
             | Some a \<Rightarrow> (Some a, st))
          else (None, st))"

text \<open>
  Lines 59 to 67 of \<open>resetConnections()\<close>. When the quick engine's \<open>engine()\<close> is not a
  \<open>KNSCore::Engine\<close>, \<open>coreEngine\<close> is null and line 65 dereferences it if no provider is
  held.
\<close>

definition resolveProvider :: "Env \<Rightarrow> World \<Rightarrow> error + World" where
  "resolveProvider env st =
     (case engine st of
        None \<Rightarrow> Inr st
      | Some e \<Rightarrow>
          (case quickEngine_engine env e of
             None \<Rightarrow> Inr st
           | Some obj \<Rightarrow>
               let st1 = (if isCoreEngine env obj
                          then st\<lparr>provider := coreEngine_provider env obj (providerId st)\<rparr>
                          else st)
               in if provider st1 = None then
                    (if isCoreEngine env obj
                     then Inr (st1\<lparr>provider := coreEngine_defaultProvider env obj\<rparr>)
                     else Inl NullDereference)
                  else Inr st1))"

text \<open>Lines 68 to 74: connect the lambda to the provider and look the author up once.\<close>

definition connectProvider :: "Env \<Rightarrow> World \<Rightarrow> World" where
  "connectProvider env st =
     (case provider st of
        None \<Rightarrow> st
      | Some p \<Rightarrow> snd (author env (st\<lparr>connections := connections st @ [p]\<rparr>)))"

text \<open>\<open>resetConnections()\<close>, lines 52 to 75.\<close>

definition resetConnections :: "Env \<Rightarrow> World \<Rightarrow> error + World" where
  "resetConnections env st =
     (if \<not> componentCompleted st then Inr st
      else
        let st1 = (case provider st of
                     None \<Rightarrow> st
                   | Some p \<Rightarrow> st\<lparr>connections := removeAll p (connections st)\<rparr>)
        in case resolveProvider env st1 of
             Inl e \<Rightarrow> Inl e
           | Inr st2 \<Rightarrow> Inr (connectProvider env st2))"

text \<open>
  The lambda of lines 69 to 72, run once for each connection when a provider emits
  \<open>personLoaded\<close>. It reads the member \<open>provider\<close> when it runs. The signal carries a
  shared pointer, which the lambda dereferences unchecked.
\<close>

definition personLoaded_slot :: "Env \<Rightarrow> CoreAuthor option \<Rightarrow> World \<Rightarrow> error + World" where
  "personLoaded_slot env loaded st =
     (case provider st of
        None \<Rightarrow> Inl NullDereference
      | Some p \<Rightarrow>
          (case loaded of
             None \<Rightarrow> Inl NullDereference
           | Some a \<Rightarrow>
               Inr (emit DataChanged
                      (st\<lparr>allAuthors :=
                            (allAuthors st)(formatKey env (provider_id env p) (author_id a) \<mapsto> a)\<rparr>))))"

fun deliver :: "Env \<Rightarrow> CoreAuthor option \<Rightarrow> addr list \<Rightarrow> World \<Rightarrow> error + World" where
  "deliver env loaded [] st = Inr st"
| "deliver env loaded (c # cs) st =
     (case personLoaded_slot env loaded st of
        Inl e \<Rightarrow> Inl e
      | Inr st' \<Rightarrow> deliver env loaded cs st')"

definition personLoaded :: "Env \<Rightarrow> addr \<Rightarrow> CoreAuthor option \<Rightarrow> World \<Rightarrow> error + World" where
  "personLoaded env sender loaded st =
     deliver env loaded (filter (\<lambda>c. c = sender) (connections st)) st"

subsection \<open>The public members of Author\<close>

text \<open>\<open>componentComplete()\<close>, lines 110 to 114.\<close>

definition componentComplete :: "Env \<Rightarrow> World \<Rightarrow> error + World" where
  "componentComplete env st = resetConnections env (st\<lparr>componentCompleted := True\<rparr>)"

text \<open>
  \<open>setEngine\<close>, lines 121 to 128. The argument is any \<open>QObject*\<close>; the guard compares
  pointers, the assignment stores the cast.
\<close>

definition qobject_cast_Engine :: "Env \<Rightarrow> addr option \<Rightarrow> addr option" where
  "qobject_cast_Engine env obj =
     (case obj of
        None \<Rightarrow> None
      | Some a \<Rightarrow> if isQuickEngine env a then Some a else None)"

definition setEngine :: "Env \<Rightarrow> addr option \<Rightarrow> World \<Rightarrow> error + World" where
  "setEngine env newEngine st =
     (if engine st \<noteq> newEngine then
        (case resetConnections env (st\<lparr>engine := qobject_cast_Engine env newEngine\<rparr>) of
           Inl e \<Rightarrow> Inl e
         | Inr st' \<Rightarrow> Inr (emit EngineChanged st'))
      else Inr st)"

text \<open>\<open>setProviderId\<close>, lines 135 to 142.\<close>

definition setProviderId :: "Env \<Rightarrow> string \<Rightarrow> World \<Rightarrow> error + World" where
  "setProviderId env newId st =
     (if providerId st \<noteq> newId then
        (case resetConnections env (st\<lparr>providerId := newId\<rparr>) of
           Inl e \<Rightarrow> Inl e
         | Inr st' \<Rightarrow> Inr (emit ProviderIdChanged st'))
      else Inr st)"

text \<open>\<open>setUsername\<close>, lines 149 to 156.\<close>

definition setUsername :: "Env \<Rightarrow> string \<Rightarrow> World \<Rightarrow> error + World" where
  "setUsername env newName st =
     (if username st \<noteq> newName then
        (case resetConnections env (st\<lparr>username := newName\<rparr>) of
           Inl e \<Rightarrow> Inl e
         | Inr st' \<Rightarrow> Inr (emit UsernameChanged st'))
      else Inr st)"

text \<open>The property getters, lines 158 to 201. Each returns its value and the state after \<open>author()\<close>.\<close>

definition name :: "Env \<Rightarrow> World \<Rightarrow> string \<times> World" where
  "name env st =
     (case author env st of
        (Some a, st') \<Rightarrow> if author_name a \<noteq> [] then (author_name a, st') else (username st', st')
      | (None, st') \<Rightarrow> (username st', st'))"

definition description :: "Env \<Rightarrow> World \<Rightarrow> string \<times> World" where
  "description env st =
     (case author env st of
        (Some a, st') \<Rightarrow> (author_description a, st')
      | (None, st') \<Rightarrow> ([], st'))"

definition homepage :: "Env \<Rightarrow> World \<Rightarrow> string \<times> World" where
  "homepage env st =
     (case author env st of
        (Some a, st') \<Rightarrow> (author_homepage a, st')
      | (None, st') \<Rightarrow> ([], st'))"

definition profilepage :: "Env \<Rightarrow> World \<Rightarrow> string \<times> World" where
  "profilepage env st =
     (case author env st of
        (Some a, st') \<Rightarrow> (author_profilepage a, st')
      | (None, st') \<Rightarrow> ([], st'))"

definition avatarUrl :: "Env \<Rightarrow> World \<Rightarrow> string \<times> World" where
  "avatarUrl env st =
     (case author env st of
        (Some a, st') \<Rightarrow> (author_avatarUrl a, st')
      | (None, st') \<Rightarrow> ([], st'))"

subsection \<open>Operations on an adapter\<close>

text \<open>
  Everything that can happen to one adapter after construction: the calls of its public
  members and the delivery of a provider's \<open>personLoaded\<close> signal.
\<close>

datatype operation =
    ComponentComplete
  | SetEngine "addr option"
  | SetProviderId string
  | SetUsername string
  | GetName
  | GetDescription
  | GetHomepage
  | GetProfilepage
  | GetAvatarUrl
  | PersonLoaded addr "CoreAuthor option"

fun step :: "Env \<Rightarrow> operation \<Rightarrow> World \<Rightarrow> error + World" where
  "step env ComponentComplete st = componentComplete env st"
| "step env (SetEngine e) st = setEngine env e st"
| "step env (SetProviderId i) st = setProviderId env i st"
| "step env (SetUsername u) st = setUsername env u st"
| "step env GetName st = Inr (snd (name env st))"
| "step env GetDescription st = Inr (snd (description env st))"
| "step env GetHomepage st = Inr (snd (homepage env st))"
| "step env GetProfilepage st = Inr (snd (profilepage env st))"
| "step env GetAvatarUrl st = Inr (snd (avatarUrl env st))"
| "step env (PersonLoaded p a) st = personLoaded env p a st"

text \<open>A run of operations, each under the environment of its moment; it stops at the first crash.\<close>

fun run :: "(Env \<times> operation) list \<Rightarrow> World \<Rightarrow> error + World" where
  "run [] st = Inr st"
| "run ((env, op) # ops) st =
     (case step env op st of
        Inl e \<Rightarrow> Inl e
      | Inr st' \<Rightarrow> run ops st')"

subsection \<open>Sample objects\<close>

text \<open>
  A small object graph for concrete evaluation: the quick engine at address 1 wraps the
  core engine at address 2, which knows the provider at address 3 under the id \<open>api\<close> and
  has it as default; address 7 holds an object that is no engine.
\<close>

definition sampleEnv :: Env where
  "sampleEnv =
     \<lparr>formatKey = (\<lambda>a b. a @ '' '' @ b),
      isQuickEngine = (\<lambda>a. a = 1),
      quickEngine_engine = (\<lambda>a. if a = 1 then Some 2 else None),
      isCoreEngine = (\<lambda>a. a = 2),
      coreEngine_provider = (\<lambda>a i. if a = 2 \<and> i = ''api'' then Some 3 else None),
      coreEngine_defaultProvider = (\<lambda>a. if a = 2 then Some 3 else None),
      provider_id = (\<lambda>p. if p = 3 then ''api'' else [])\<rparr>"

definition emptyCache :: "string \<rightharpoonup> CoreAuthor" where
  "emptyCache = Map.empty"

definition alice :: CoreAuthor where
  "alice =
     \<lparr>author_id = ''alice'', author_name = ''Alice A.'', author_description = ''Artist'',
      author_homepage = ''https://example.org'', author_profilepage = ''https://example.org/alice'',
      author_avatarUrl = ''https://example.org/alice.png''\<rparr>"

text \<open>An adapter after \<open>componentComplete()\<close> with the sample engine and the username \<open>alice\<close>.\<close>

definition connectedWorld :: World where
  "connectedWorld =
     \<lparr>allAuthors = emptyCache, componentCompleted = True, engine = Some 1, providerId = ''api'',
      username = ''alice'', provider = Some 3, connections = [3],
      trace = [EngineChanged, DataChanged, ProviderIdChanged, DataChanged,
               UsernameChanged, DataChanged, LoadPerson 3 ''alice'']\<rparr>"

text \<open>The record cached for the adapter's current provider and username, if any.\<close>

definition cachedRecord :: "Env \<Rightarrow> World \<Rightarrow> CoreAuthor option" where
  "cachedRecord env st =
     (case provider st of
        None \<Rightarrow> None
      | Some p \<Rightarrow> allAuthors st (formatKey env (provider_id env p) (username st)))"

definition nameless :: CoreAuthor where
  "nameless = alice\<lparr>author_name := []\<rparr>"

definition resolvedNameless :: World where
  "resolvedNameless =
     connectedWorld\<lparr>allAuthors := emptyCache(''api alice'' \<mapsto> nameless),
                    trace := trace connectedWorld @ [DataChanged]\<rparr>"


definition resolvedWorld :: World where
  "resolvedWorld = connectedWorld\<lparr>allAuthors := emptyCache(''api alice'' \<mapsto> alice)\<rparr>"


fun isLoadPerson :: "event \<Rightarrow> bool" where
  "isLoadPerson (LoadPerson p u) = True"
| "isLoadPerson e = False"

definition sampleOps :: "(Env \<times> operation) list" where
  "sampleOps =
     [(sampleEnv, SetEngine (Some 1)), (sampleEnv, SetProviderId ''api''),
      (sampleEnv, SetUsername ''alice''), (sampleEnv, GetName),
      (sampleEnv, PersonLoaded 3 (Some alice))]"

text \<open>The state of an adapter on which \<open>componentComplete()\<close> has not run.\<close>

definition incomplete :: "World \<Rightarrow> bool" where
  "incomplete st \<longleftrightarrow>
     \<not> componentCompleted st \<and> provider st = None \<and> connections st = []
     \<and> filter isLoadPerson (trace st) = []"

text \<open>
  In every state an adapter reaches, it is connected exactly once to the provider it
  holds, and to no other.
\<close>

definition connectedToProvider :: "World \<Rightarrow> bool" where
  "connectedToProvider st \<longleftrightarrow>
     connections st = (case provider st of None \<Rightarrow> [] | Some p \<Rightarrow> [p])
     \<and> (\<not> componentCompleted st \<longrightarrow> provider st = None)"



text \<open>The sample objects, except that the quick engine wraps the object at address 7.\<close>

definition oddEnv :: Env where
  "oddEnv = sampleEnv\<lparr>quickEngine_engine := (\<lambda>a. if a = 1 then Some 7 else None)\<rparr>"

section \<open>KMoreTools (src/kmoretools/kmoretools.h)\<close>

text \<open>
  The header declares the classes and documents their contracts; the member functions are
  implemented in kmoretools.cpp, which is not part of the sources at hand. The enums below
  are the header's. Every function of this section is modelled from the specification and
  the header's documentation and says so.
\<close>

subsection \<open>Enums of the header\<close>

datatype ServiceLocatingMode =
    ServiceLocatingMode_Default
  | ServiceLocatingMode_ByProvidedExecLine

datatype MenuSection =
    MenuSection_Main
  | MenuSection_More

datatype ConfigureDialogAccessibleSetting =
    ConfigureDialogAccessible_Always
  | ConfigureDialogAccessible_Defensive

subsection \<open>Services\<close>

text \<open>
  The entries of a desktop file that the service reads (\<open>KService\<close> of the KDE
  frameworks): name, generic name, the Exec line and the icon.
\<close>

record KService =
  service_name :: string
  service_genericName :: string
  service_exec :: string
  service_icon :: string

text \<open>
  A registered service, with the fields behind the header's getters
  \<open>desktopEntryName()\<close>, \<open>isInstalled()\<close>, \<open>installedService()\<close>,
  \<open>kmtProvidedService()\<close> and \<open>homepageUrl()\<close>.
\<close>

record KMoreToolsService =
  desktopEntryName :: string
  isInstalled :: bool
  installedService :: "KService option"
  kmtProvidedService :: "KService option"
  homepageUrl :: string

text \<open>
  Modelled from the spec: the choice of the desktop file a service takes its entries from
  (kmoretools.cpp is missing). The information of the installed file is used if there is
  one, otherwise that of the application's own copy.
\<close>

definition desktopFile :: "KMoreToolsService \<Rightarrow> KService option" where
  "desktopFile s =
     (case installedService s of
        Some f \<Rightarrow> Some f
      | None \<Rightarrow> kmtProvidedService s)"

text \<open>
  Modelled from the spec: the value of the placeholder \<open>$Name\<close> in
  \<open>KMoreToolsService::formatString\<close> (kmoretools.cpp is missing): the name of the desktop
  file if available and non-empty, otherwise the desktop-entry name.
\<close>

definition nameValue :: "KMoreToolsService \<Rightarrow> string" where
  "nameValue s =
     (case desktopFile s of
        Some f \<Rightarrow> if service_name f \<noteq> [] then service_name f else desktopEntryName s
      | None \<Rightarrow> desktopEntryName s)"

text \<open>
  Modelled from the spec: the value of the placeholder \<open>$GenericName\<close> in
  \<open>KMoreToolsService::formatString\<close> (kmoretools.cpp is missing): the generic name of the
  desktop file if available and non-empty, otherwise the value of \<open>$Name\<close>.
\<close>

definition genericNameValue :: "KMoreToolsService \<Rightarrow> string" where
  "genericNameValue s =
     (case desktopFile s of
        Some f \<Rightarrow> if service_genericName f \<noteq> [] then service_genericName f else nameValue s
      | None \<Rightarrow> nameValue s)"

fun startsWith :: "string \<Rightarrow> string \<Rightarrow> bool" where
  "startsWith [] s = True"
| "startsWith (p # ps) [] = False"
| "startsWith (p # ps) (c # cs) = (p = c \<and> startsWith ps cs)"

text \<open>
  Modelled from the spec: the placeholder substitution of
  \<open>KMoreToolsService::formatString\<close> (kmoretools.cpp is missing), as one pass from left to
  right: where a placeholder of the table starts, its value is written and the rest of
  the placeholder is skipped (\<open>skip\<close> counts the characters still to skip); any other
  character is copied.
\<close>

fun substitute :: "(string \<times> string) list \<Rightarrow> nat \<Rightarrow> string \<Rightarrow> string" where
  "substitute tab skip [] = []"
| "substitute tab skip (c # cs) =
     (if 0 < skip then substitute tab (skip - 1) cs
      else
        (case find (\<lambda>(ph, v). startsWith ph (c # cs)) tab of
           Some (ph, v) \<Rightarrow> v @ substitute tab (length ph - 1) cs
         | None \<Rightarrow> c # substitute tab 0 cs))"

text \<open>
  Modelled from the spec: \<open>KMoreToolsService::formatString\<close> (declared at lines 401 to
  420 of the header, implemented in the missing kmoretools.cpp), with the three
  placeholders the header lists.
\<close>

definition formatString :: "KMoreToolsService \<Rightarrow> string \<Rightarrow> string" where
  "formatString s fmt =
     substitute
       [(''$GenericName'', genericNameValue s),
        (''$Name'', nameValue s),
        (''$DesktopEntryName'', desktopEntryName s)] 0 fmt"

subsection \<open>Registration and menu builders\<close>

text \<open>
  What registration finds on the system: the installed desktop file of a desktop-entry
  name, the application's own copy in a given subdirectory (missing, faulty or valid), and
  whether the executable of an Exec line exists.
\<close>

datatype kmtDesktopfile = KmtMissing | KmtFaulty | KmtProvided KService

record KmtEnv =
  installedDesktopfile :: "string \<Rightarrow> KService option"
  providedDesktopfile :: "string \<Rightarrow> string \<Rightarrow> kmtDesktopfile"
  executableFound :: "string \<Rightarrow> bool"

text \<open>
  A menu item with the fields behind the header's getters \<open>id()\<close>,
  \<open>registeredService()\<close> (null for an item added with a caller's action),
  \<open>defaultLocation()\<close> and \<open>initialItemText()\<close>.
\<close>

record KMoreToolsMenuItem =
  item_id :: string
  registeredService :: "KMoreToolsService option"
  defaultLocation :: MenuSection
  initialItemText :: string

text \<open>A menu builder: the two constructor arguments, the text template and the items added.\<close>

record KMoreToolsMenuBuilder =
  builder_uniqueId :: string
  userConfigPostfix :: string
  initialItemTextTemplate :: string
  menuItems :: "KMoreToolsMenuItem list"

text \<open>
  A \<open>KMoreTools\<close> object: its unique id, the registered services, the menu builders it
  handed out by postfix, the builder objects by address, and the next unused address.
\<close>

record KMoreTools =
  uniqueId :: string
  serviceList :: "KMoreToolsService list"
  menuBuilderMap :: "string \<rightharpoonup> addr"
  builders :: "addr \<rightharpoonup> KMoreToolsMenuBuilder"
  nextBuilder :: addr

text \<open>
  Modelled from the spec: the constructor \<open>KMoreTools::KMoreTools(uniqueId)\<close>
  (kmoretools.cpp is missing): nothing registered, no builder handed out.
\<close>

definition KMoreTools_new :: "string \<Rightarrow> KMoreTools" where
  "KMoreTools_new uid =
     \<lparr>uniqueId = uid, serviceList = [], menuBuilderMap = Map.empty, builders = Map.empty,
      nextBuilder = 0\<rparr>"

text \<open>
  Modelled from the spec: the constructor
  \<open>KMoreToolsMenuBuilder(uniqueId, userConfigPostfix)\<close> (kmoretools.cpp is missing); the
  default template text is \<open>$GenericName\<close> (header, line 488).
\<close>

definition KMoreToolsMenuBuilder_new :: "string \<Rightarrow> string \<Rightarrow> KMoreToolsMenuBuilder" where
  "KMoreToolsMenuBuilder_new uid postfix =
     \<lparr>builder_uniqueId = uid, userConfigPostfix = postfix,
      initialItemTextTemplate = ''$GenericName'', menuItems = []\<rparr>"

text \<open>
  Modelled from the spec: how \<open>registerServiceByDesktopEntryName\<close> decides whether a
  service is installed (kmoretools.cpp is missing). By default it is installed if a
  desktop file is installed on the system; with \<open>ServiceLocatingMode_ByProvidedExecLine\<close>
  installed desktop files are not searched, and it is installed if the executable of the
  provided desktop file's Exec line exists.
\<close>

definition locateService ::
  "KmtEnv \<Rightarrow> string \<Rightarrow> KService option \<Rightarrow> ServiceLocatingMode \<Rightarrow> KMoreToolsService" where
  "locateService env entryName kmt mode =
     (case mode of
        ServiceLocatingMode_Default \<Rightarrow>
          \<lparr>desktopEntryName = entryName,
           isInstalled = (installedDesktopfile env entryName \<noteq> None),
           installedService = installedDesktopfile env entryName,
           kmtProvidedService = kmt, homepageUrl = []\<rparr>
      | ServiceLocatingMode_ByProvidedExecLine \<Rightarrow>
          \<lparr>desktopEntryName = entryName,
           isInstalled =
             (case kmt of
                None \<Rightarrow> False
              | Some f \<Rightarrow> executableFound env (service_exec f)),
           installedService = None,
           kmtProvidedService = kmt, homepageUrl = []\<rparr>)"

text \<open>
  Modelled from the spec: \<open>KMoreTools::registerServiceByDesktopEntryName\<close> (declared at
  lines 276 to 314 of the header, implemented in the missing kmoretools.cpp). The provided
  desktop file is searched under the subdirectory given, or under the unique id if none is
  given. A faulty one gives a null result and registers nothing. Otherwise the service is
  located and put in the place of a service registered before under the same name.
\<close>

definition registerServiceByDesktopEntryName ::
  "KmtEnv \<Rightarrow> string \<Rightarrow> string \<Rightarrow> ServiceLocatingMode \<Rightarrow> KMoreTools
     \<Rightarrow> KMoreToolsService option \<times> KMoreTools" where
  "registerServiceByDesktopEntryName env entryName kmtDesktopfileSubdir mode k =
     (case providedDesktopfile env
             (if kmtDesktopfileSubdir = [] then uniqueId k else kmtDesktopfileSubdir) entryName of
        KmtFaulty \<Rightarrow> (None, k)
      | KmtMissing \<Rightarrow>
          (let s = locateService env entryName None mode
           in (Some s, k\<lparr>serviceList :=
                 filter (\<lambda>x. desktopEntryName x \<noteq> entryName) (serviceList k) @ [s]\<rparr>))
      | KmtProvided f \<Rightarrow>
          (let s = locateService env entryName (Some f) mode
           in (Some s, k\<lparr>serviceList :=
                 filter (\<lambda>x. desktopEntryName x \<noteq> entryName) (serviceList k) @ [s]\<rparr>)))"

text \<open>
  Modelled from the spec: \<open>KMoreTools::menuBuilder\<close> (declared at lines 316 to 330 of the
  header, implemented in the missing kmoretools.cpp): the builder handed out before for
  the postfix, or a new builder at an unused address, which is remembered for the postfix.
\<close>

definition menuBuilder :: "string \<Rightarrow> KMoreTools \<Rightarrow> addr \<times> KMoreTools" where
  "menuBuilder postfix k =
     (case menuBuilderMap k postfix of
        Some b \<Rightarrow> (b, k)
      | None \<Rightarrow>
          (nextBuilder k,
           k\<lparr>menuBuilderMap := (menuBuilderMap k)(postfix \<mapsto> nextBuilder k),
             builders := (builders k)(nextBuilder k \<mapsto> KMoreToolsMenuBuilder_new (uniqueId k) postfix),
             nextBuilder := Suc (nextBuilder k)\<rparr>))"

text \<open>The calls a client makes on a \<open>KMoreTools\<close> object, and a sequence of them.\<close>

datatype kmtCall =
    RegisterService KmtEnv string string ServiceLocatingMode
  | MenuBuilder string

fun kmtStep :: "kmtCall \<Rightarrow> KMoreTools \<Rightarrow> KMoreTools" where
  "kmtStep (RegisterService env n d m) k = snd (registerServiceByDesktopEntryName env n d m k)"
| "kmtStep (MenuBuilder p) k = snd (menuBuilder p k)"

definition kmtRun :: "kmtCall list \<Rightarrow> KMoreTools \<Rightarrow> KMoreTools" where
  "kmtRun calls k = fold kmtStep calls k"

subsection \<open>Menu items and the built menu\<close>

definition digitChar :: "nat \<Rightarrow> char" where
  "digitChar d = ''0123456789'' ! d"

fun showNat :: "nat \<Rightarrow> string" where
  "showNat n = (if n < 10 then [digitChar n] else showNat (n div 10) @ [digitChar (n mod 10)])"

declare showNat.simps [simp del]

text \<open>
  Modelled from the spec: the generation of a menu item's id (kmoretools.cpp is missing).
  The id is the proposed one if no item of the builder has it, and otherwise the proposed
  one with the first number as postfix that makes it unique.
\<close>

definition uniqueItemId :: "string list \<Rightarrow> string \<Rightarrow> string" where
  "uniqueItemId used base =
     (case find (\<lambda>c. c \<notin> set used) (base # map (\<lambda>n. base @ showNat n) [0..<length used]) of
        Some c \<Rightarrow> c
      | None \<Rightarrow> base @ showNat (length used))"

text \<open>
  Modelled from the spec: \<open>KMoreToolsMenuBuilder::addMenuItem\<close> for a registered service
  (declared at lines 493 to 512 of the header, implemented in the missing kmoretools.cpp).
  The id is generated from the desktop-entry name, the initial text from the builder's
  template.
\<close>

definition addMenuItem ::
  "KMoreToolsService \<Rightarrow> MenuSection \<Rightarrow> KMoreToolsMenuBuilder
     \<Rightarrow> KMoreToolsMenuItem \<times> KMoreToolsMenuBuilder" where
  "addMenuItem s defaultLoc b =
     (let item = \<lparr>item_id = uniqueItemId (map item_id (menuItems b)) (desktopEntryName s),
                  registeredService = Some s,
                  defaultLocation = defaultLoc,
                  initialItemText = formatString s (initialItemTextTemplate b)\<rparr>
      in (item, b\<lparr>menuItems := menuItems b @ [item]\<rparr>))"

text \<open>
  Modelled from the spec: \<open>KMoreToolsMenuBuilder::addMenuItem\<close> for an action of the
  caller's (declared at lines 514 to 531 of the header, implemented in the missing
  kmoretools.cpp). The action itself plays no part in the placement and is left out.
\<close>

definition addMenuItem_action ::
  "string \<Rightarrow> MenuSection \<Rightarrow> KMoreToolsMenuBuilder \<Rightarrow> KMoreToolsMenuItem \<times> KMoreToolsMenuBuilder" where
  "addMenuItem_action itemId defaultLoc b =
     (let item = \<lparr>item_id = uniqueItemId (map item_id (menuItems b)) itemId,
                  registeredService = None,
                  defaultLocation = defaultLoc,
                  initialItemText = []\<rparr>
      in (item, b\<lparr>menuItems := menuItems b @ [item]\<rparr>))"

text \<open>An item is a not-installed one if it has a registered service that is not installed.\<close>

definition notInstalledItem :: "KMoreToolsMenuItem \<Rightarrow> bool" where
  "notInstalledItem i =
     (case registeredService i of
        None \<Rightarrow> False
      | Some s \<Rightarrow> \<not> isInstalled s)"

text \<open>
  Modelled from the spec: the section of an item when the menu is built (kmoretools.cpp
  is missing): the one the persisted user configuration gives for the item's id, and the
  item's default section if it gives none.
\<close>

definition itemSection :: "(string \<rightharpoonup> MenuSection) \<Rightarrow> KMoreToolsMenuItem \<Rightarrow> MenuSection" where
  "itemSection userConfig i =
     (case userConfig (item_id i) of
        Some sec \<Rightarrow> sec
      | None \<Rightarrow> defaultLocation i)"

text \<open>
  The menu after building: the items appended to the menu itself, the items of the
  \<open>More\<close> submenu, the items of the \<open>Not installed\<close> part at the end of that submenu, and
  whether the \<open>Configure...\<close> entry is there.
\<close>

record BuiltMenu =
  mainSection :: "KMoreToolsMenuItem list"
  moreSection :: "KMoreToolsMenuItem list"
  notInstalledSection :: "KMoreToolsMenuItem list"
  configureItem :: bool

text \<open>
  Modelled from the spec: \<open>KMoreToolsMenuBuilder::buildByAppendingToMenu\<close> (declared at
  lines 540 to 558 of the header, implemented in the missing kmoretools.cpp). Items of the
  main section are appended to the menu, items of the more section are collected in the
  \<open>More\<close> submenu, and items of services that are not installed go to its
  \<open>Not installed\<close> part whatever their section. The \<open>Configure...\<close> entry is added
  always, or only if there is a not-installed item. The modifier key that forces the entry
  is not modelled.
\<close>

definition buildByAppendingToMenu ::
  "(string \<rightharpoonup> MenuSection) \<Rightarrow> ConfigureDialogAccessibleSetting \<Rightarrow> KMoreToolsMenuBuilder
     \<Rightarrow> BuiltMenu" where
  "buildByAppendingToMenu userConfig setting b =
     \<lparr>mainSection =
        filter (\<lambda>i. \<not> notInstalledItem i \<and> itemSection userConfig i = MenuSection_Main)
          (menuItems b),
      moreSection =
        filter (\<lambda>i. \<not> notInstalledItem i \<and> itemSection userConfig i = MenuSection_More)
          (menuItems b),
      notInstalledSection = filter notInstalledItem (menuItems b),
      configureItem =
        (case setting of
           ConfigureDialogAccessible_Always \<Rightarrow> True
         | ConfigureDialogAccessible_Defensive \<Rightarrow> filter notInstalledItem (menuItems b) \<noteq> [])\<rparr>"

subsection \<open>Sample services\<close>

text \<open>
  A system on which \<open>kate\<close> is installed, \<open>gitk\<close> has no desktop file of its own but
  a provided one and an executable, and the provided desktop file of \<open>broken\<close> is faulty.
\<close>

definition sampleKmtEnv :: KmtEnv where
  "sampleKmtEnv =
     \<lparr>installedDesktopfile =
        (\<lambda>n. if n = ''kate''
              then Some \<lparr>service_name = ''Kate'', service_genericName = ''Text Editor'',
                         service_exec = ''kate'', service_icon = ''kate''\<rparr>
              else None),
      providedDesktopfile =
        (\<lambda>d n. if n = ''gitk''
                then KmtProvided \<lparr>service_name = ''Gitk'', service_genericName = [],
                                   service_exec = ''gitk'', service_icon = []\<rparr>
                else if n = ''broken'' then KmtFaulty else KmtMissing),
      executableFound = (\<lambda>e. e = ''gitk'')\<rparr>"

definition gitk :: KMoreToolsService where
  "gitk =
     \<lparr>desktopEntryName = ''gitk'', isInstalled = False, installedService = None,
      kmtProvidedService =
        Some \<lparr>service_name = ''Gitk'', service_genericName = [], service_exec = ''gitk'',
              service_icon = []\<rparr>,
      homepageUrl = []\<rparr>"

definition noConfig :: "string \<rightharpoonup> MenuSection" where
  "noConfig = Map.empty"

text \<open>
  In a \<open>KMoreTools\<close> object that calls have led to, every builder handed out lies below
  the next unused address and exists with the postfix it was asked for.
\<close>

definition buildersFresh :: "KMoreTools \<Rightarrow> bool" where
  "buildersFresh k \<longleftrightarrow>
     (\<forall>p a. menuBuilderMap k p = Some a \<longrightarrow>
        a < nextBuilder k \<and> (\<exists>b. builders k a = Some b \<and> userConfigPostfix b = p))"

definition gitkInstalled :: KMoreToolsService where
  "gitkInstalled = gitk\<lparr>isInstalled := True\<rparr>"

definition registeredOnce :: KMoreTools where
  "registeredOnce =
     kmtRun [RegisterService sampleKmtEnv ''gitk'' [] ServiceLocatingMode_Default,
             RegisterService sampleKmtEnv ''kate'' [] ServiceLocatingMode_Default]
       (KMoreTools_new ''kate'')"

definition gitkMenu :: "KMoreToolsMenuItem \<times> KMoreToolsMenuBuilder" where
  "gitkMenu = addMenuItem gitk MenuSection_Main (KMoreToolsMenuBuilder_new ''kate'' [])"

text \<open>The provided desktop file as the service keeps it: present only if found and valid.\<close>

definition providedService :: "kmtDesktopfile \<Rightarrow> KService option" where
  "providedService d =
     (case d of
        KmtProvided f \<Rightarrow> Some f
      | KmtMissing \<Rightarrow> None
      | KmtFaulty \<Rightarrow> None)"


section \<open>Properties of the author adapter\<close>

lemma author_miss:
  assumes "provider st = Some p" and "username st \<noteq> []"
    and "allAuthors st (formatKey env (provider_id env p) (username st)) = None"
  shows "author env st = (None, st\<lparr>trace := trace st @ [LoadPerson p (username st)]\<rparr>)"
  using assms by (simp add: author_def)

text \<open>
  C1. With a provider \<open>p\<close> resolved, a non-empty username \<open>u\<close> and no cache entry under the
  key of \<open>p\<close>'s id and \<open>u\<close>, every property getter issues exactly one \<open>loadPerson(u)\<close>
  request on \<open>p\<close> and nothing else, and returns at once with its fallback: \<open>name()\<close> the raw
  username, the other getters the empty string or URL.
\<close>

theorem C1_miss_requests_load_once:
  assumes "provider st = Some p" and "username st = u" and "u \<noteq> []"
    and "allAuthors st (formatKey env (provider_id env p) u) = None"
  shows "name env st = (u, st\<lparr>trace := trace st @ [LoadPerson p u]\<rparr>)
       \<and> description env st = ([], st\<lparr>trace := trace st @ [LoadPerson p u]\<rparr>)
       \<and> homepage env st = ([], st\<lparr>trace := trace st @ [LoadPerson p u]\<rparr>)
       \<and> profilepage env st = ([], st\<lparr>trace := trace st @ [LoadPerson p u]\<rparr>)
       \<and> avatarUrl env st = ([], st\<lparr>trace := trace st @ [LoadPerson p u]\<rparr>)"
proof -
  have miss: "author env st = (None, st\<lparr>trace := trace st @ [LoadPerson p u]\<rparr>)"
    using assms author_miss [of st p env] by simp
  show ?thesis
    using assms(2) by (simp add: miss name_def description_def homepage_def profilepage_def avatarUrl_def)
qed

theorem C1_miss_requests_load_once_witness:
  "provider connectedWorld = Some 3 \<and> username connectedWorld = ''alice'' \<and> ''alice'' \<noteq> []
   \<and> allAuthors connectedWorld (formatKey sampleEnv (provider_id sampleEnv 3) ''alice'') = None
   \<and> name sampleEnv connectedWorld
       = (''alice'', connectedWorld\<lparr>trace := trace connectedWorld @ [LoadPerson 3 ''alice'']\<rparr>)
   \<and> description sampleEnv connectedWorld
       = ([], connectedWorld\<lparr>trace := trace connectedWorld @ [LoadPerson 3 ''alice'']\<rparr>)"
  using C1_miss_requests_load_once [of connectedWorld 3 "''alice''" sampleEnv]
  by (simp add: connectedWorld_def sampleEnv_def emptyCache_def)

lemma author_None:
  assumes "cachedRecord env st = None"
  shows "fst (author env st) = None \<and> username (snd (author env st)) = username st"
  using assms by (auto simp: author_def cachedRecord_def split: option.splits)

text \<open>
  C4. When no record is cached for the current provider and username, the getters fall
  back: \<open>name()\<close> to the raw username, \<open>description()\<close>, \<open>homepage()\<close> and
  \<open>profilepage()\<close> to the empty string, \<open>avatarUrl()\<close> to the empty URL. The getters are
  total: none of them has an error result.
\<close>

theorem C4_unresolved_fallbacks:
  assumes "cachedRecord env st = None"
  shows "fst (name env st) = username st
       \<and> fst (description env st) = []
       \<and> fst (homepage env st) = []
       \<and> fst (profilepage env st) = []
       \<and> fst (avatarUrl env st) = []"
  using author_None [OF assms]
  by (auto simp: name_def description_def homepage_def profilepage_def avatarUrl_def
           split: prod.splits option.splits)

theorem C4_unresolved_fallbacks_witness:
  "cachedRecord sampleEnv connectedWorld = None
   \<and> fst (name sampleEnv connectedWorld) = ''alice''
   \<and> fst (description sampleEnv connectedWorld) = []
   \<and> fst (homepage sampleEnv connectedWorld) = []
   \<and> fst (profilepage sampleEnv connectedWorld) = []
   \<and> fst (avatarUrl sampleEnv connectedWorld) = []"
proof -
  have h: "cachedRecord sampleEnv connectedWorld = None"
    by (simp add: cachedRecord_def connectedWorld_def sampleEnv_def emptyCache_def)
  have u: "username connectedWorld = ''alice''"
    by (simp add: connectedWorld_def)
  show ?thesis
    using h u C4_unresolved_fallbacks [OF h] by simp
qed

subsection \<open>Completion of a load\<close>

lemma personLoaded_single:
  assumes "provider st = Some p" and "connections st = [p]"
  shows "personLoaded env p (Some a) st =
           Inr (st\<lparr>allAuthors := (allAuthors st)(formatKey env (provider_id env p) (author_id a) \<mapsto> a),
                    trace := trace st @ [DataChanged]\<rparr>)"
  using assms by (simp add: personLoaded_def personLoaded_slot_def emit_def)

text \<open>
  C2 as stated fails where the loaded record has an empty display name: the record is
  cached under the key of the provider id and the username, yet \<open>name()\<close> still returns
  the raw username, because line 161 skips an empty name.
\<close>

theorem C2_empty_name_counterexample:
  "personLoaded sampleEnv 3 (Some nameless) connectedWorld = Inr resolvedNameless
   \<and> author_id nameless = username connectedWorld
   \<and> allAuthors resolvedNameless ''api alice'' = Some nameless
   \<and> fst (name sampleEnv resolvedNameless) = ''alice''
   \<and> fst (name sampleEnv resolvedNameless) \<noteq> author_name nameless"
  by (simp add: personLoaded_def personLoaded_slot_def emit_def name_def author_def
        resolvedNameless_def nameless_def alice_def connectedWorld_def sampleEnv_def emptyCache_def)

text \<open>
  C2, amended. For an adapter connected to its provider \<open>p\<close> with a non-empty username
  \<open>u\<close>: when \<open>p\<close> emits \<open>personLoaded\<close> with a record whose id is \<open>u\<close>, the
  record is stored in the shared cache under the key of \<open>p\<close>'s id and \<open>u\<close>,
  \<open>dataChanged\<close> is emitted once, and afterwards the lookup finds the record without a
  new request: \<open>name()\<close> returns the record's display name if that is non-empty, and
  the raw username otherwise.
\<close>

theorem C2_personLoaded_resolves:
  assumes "provider st = Some p" and "connections st = [p]"
    and "username st = u" and "u \<noteq> []" and "author_id a = u"
    and "st' = st\<lparr>allAuthors := (allAuthors st)(formatKey env (provider_id env p) u \<mapsto> a),
                   trace := trace st @ [DataChanged]\<rparr>"
  shows "personLoaded env p (Some a) st = Inr st'
       \<and> cachedRecord env st' = Some a
       \<and> name env st' = (if author_name a \<noteq> [] then author_name a else u, st')"
proof -
  have "personLoaded env p (Some a) st = Inr st'"
    using assms personLoaded_single [of st p env a] by simp
  moreover have "cachedRecord env st' = Some a"
    using assms by (simp add: cachedRecord_def)
  moreover have "name env st' = (if author_name a \<noteq> [] then author_name a else u, st')"
    using assms by (simp add: name_def author_def)
  ultimately show ?thesis by simp
qed

theorem C2_personLoaded_resolves_witness:
  "provider connectedWorld = Some 3 \<and> connections connectedWorld = [3]
   \<and> username connectedWorld = ''alice'' \<and> ''alice'' \<noteq> [] \<and> author_id alice = ''alice''
   \<and> personLoaded sampleEnv 3 (Some alice) connectedWorld
        = Inr (resolvedWorld\<lparr>trace := trace connectedWorld @ [DataChanged]\<rparr>)
   \<and> name sampleEnv (resolvedWorld\<lparr>trace := trace connectedWorld @ [DataChanged]\<rparr>)
        = (''Alice A.'', resolvedWorld\<lparr>trace := trace connectedWorld @ [DataChanged]\<rparr>)"
  using C2_personLoaded_resolves [of connectedWorld 3 "''alice''" alice
          "resolvedWorld\<lparr>trace := trace connectedWorld @ [DataChanged]\<rparr>" sampleEnv]
  by (simp add: resolvedWorld_def connectedWorld_def sampleEnv_def alice_def emptyCache_def)

subsection \<open>The shared cache\<close>

lemma author_cache: "allAuthors (snd (author env st)) = allAuthors st"
  by (simp add: author_def split: option.splits)

lemma resolveProvider_cache:
  "resolveProvider env st = Inr st' \<Longrightarrow> allAuthors st' = allAuthors st"
  by (auto simp: resolveProvider_def Let_def split: option.splits if_splits)

lemma connectProvider_cache: "allAuthors (connectProvider env st) = allAuthors st"
  by (simp add: connectProvider_def author_cache split: option.splits)

lemma resetConnections_cache:
  "resetConnections env st = Inr st' \<Longrightarrow> allAuthors st' = allAuthors st"
  by (auto simp: resetConnections_def Let_def connectProvider_cache
           dest!: resolveProvider_cache split: option.splits if_splits sum.splits)

lemma emit_cache: "allAuthors (emit s st) = allAuthors st"
  by (simp add: emit_def)

lemma setters_cache:
  "setEngine env e st = Inr st' \<Longrightarrow> allAuthors st' = allAuthors st"
  "setProviderId env i st = Inr st' \<Longrightarrow> allAuthors st' = allAuthors st"
  "setUsername env u st = Inr st' \<Longrightarrow> allAuthors st' = allAuthors st"
  "componentComplete env st = Inr st' \<Longrightarrow> allAuthors st' = allAuthors st"
  by (auto simp: setEngine_def setProviderId_def setUsername_def componentComplete_def emit_cache
           dest!: resetConnections_cache split: if_splits sum.splits)

lemma getters_cache:
  "allAuthors (snd (name env st)) = allAuthors st"
  "allAuthors (snd (description env st)) = allAuthors st"
  "allAuthors (snd (homepage env st)) = allAuthors st"
  "allAuthors (snd (profilepage env st)) = allAuthors st"
  "allAuthors (snd (avatarUrl env st)) = allAuthors st"
  using author_cache [of env st]
  by (auto simp: name_def description_def homepage_def profilepage_def avatarUrl_def
           split: prod.splits option.splits)


lemma slot_dom:
  assumes "personLoaded_slot env loaded st = Inr st'"
  shows "dom (allAuthors st) \<subseteq> dom (allAuthors st')"
  using assms by (auto simp: personLoaded_slot_def emit_def split: option.splits if_splits)


lemma deliver_dom:
  "deliver env loaded cs st = Inr st' \<Longrightarrow> dom (allAuthors st) \<subseteq> dom (allAuthors st')"
proof (induction cs arbitrary: st)
  case Nil
  then show ?case by simp
next
  case (Cons c cs)
  then show ?case
    by (auto split: sum.splits dest!: slot_dom) blast
qed



lemma deliver_nothing: "deliver env loaded [] st = Inr st' \<Longrightarrow> st' = st"
  by simp


lemma run_keeps_keys:
  "run ops st = Inr st' \<Longrightarrow> dom (allAuthors st) \<subseteq> dom (allAuthors st')"
proof (induction ops arbitrary: st)
  case Nil
  then show ?case by simp
next
  case (Cons x ops)
  obtain env op where x: "x = (env, op)" by (cases x)
  from Cons.prems x obtain st1 where s: "step env op st = Inr st1" and r: "run ops st1 = Inr st'"
    by (auto split: sum.splits)
  have "dom (allAuthors st) \<subseteq> dom (allAuthors st1)"
  proof (cases op)
    case (PersonLoaded p a)
    then show ?thesis using s deliver_dom [of env a _ st st1] by (simp add: personLoaded_def)
  qed (use s in \<open>auto simp: setters_cache getters_cache\<close>)
  with Cons.IH [OF r] show ?case by blast
qed




subsection \<open>The setters\<close>





lemma resetConnections_early:
  "\<not> componentCompleted st \<Longrightarrow> resetConnections env st = Inr st"
  by (simp add: resetConnections_def)




text \<open>
  The slip at work: with the completion flag set, no provider held and a quick engine
  whose \<open>engine()\<close> is no \<open>KNSCore::Engine\<close>, \<open>setEngine\<close> does not return.
\<close>

lemma setEngine_crash_example:
  "setEngine oddEnv (Some 1) ((Author_new emptyCache)\<lparr>componentCompleted := True\<rparr>)
     = Inl NullDereference"
  by (simp add: setEngine_def qobject_cast_Engine_def resetConnections_def resolveProvider_def
        Author_new_def oddEnv_def sampleEnv_def)




subsection \<open>Before componentComplete()\<close>

lemma incomplete_new: "incomplete (Author_new cache)"
  by (simp add: incomplete_def Author_new_def)

lemma author_no_provider: "provider st = None \<Longrightarrow> author env st = (None, st)"
  by (simp add: author_def)

lemma getters_no_provider:
  assumes "provider st = None"
  shows "snd (name env st) = st" "snd (description env st) = st" "snd (homepage env st) = st"
    "snd (profilepage env st) = st" "snd (avatarUrl env st) = st"
  using author_no_provider [OF assms]
  by (simp_all add: name_def description_def homepage_def profilepage_def avatarUrl_def)

lemma incomplete_step:
  assumes "incomplete st" and "op \<noteq> ComponentComplete"
  shows "\<exists>st'. step env op st = Inr st' \<and> incomplete st'"
proof (cases op)
  case ComponentComplete
  then show ?thesis using assms by simp
next
  case (SetEngine e)
  then show ?thesis
    using assms by (simp add: setEngine_def resetConnections_def emit_def incomplete_def)
next
  case (SetProviderId i)
  then show ?thesis
    using assms by (simp add: setProviderId_def resetConnections_def emit_def incomplete_def)
next
  case (SetUsername u)
  then show ?thesis
    using assms by (simp add: setUsername_def resetConnections_def emit_def incomplete_def)
next
  case (PersonLoaded p a)
  then show ?thesis
    using assms by (simp add: personLoaded_def incomplete_def)
qed (use assms in \<open>simp_all add: getters_no_provider incomplete_def\<close>)

lemma incomplete_run:
  assumes "incomplete st" and "ComponentComplete \<notin> snd ` set ops"
  shows "\<exists>st'. run ops st = Inr st' \<and> incomplete st'"
  using assms
proof (induction ops arbitrary: st)
  case Nil
  then show ?case by simp
next
  case (Cons x ops)
  obtain env op where x: "x = (env, op)" by (cases x)
  with Cons.prems have "op \<noteq> ComponentComplete" by auto
  then obtain st1 where s: "step env op st = Inr st1" and i: "incomplete st1"
    using incomplete_step [OF Cons.prems(1)] by blast
  have "ComponentComplete \<notin> snd ` set ops" using Cons.prems(2) by auto
  from Cons.IH [OF i this] show ?case using s x by simp
qed

text \<open>
  C6 as stated fails in one point: before \<open>componentComplete()\<close>, \<open>setEngine\<close> called
  with an object that is no quick engine emits its signals but stores null, not the new
  value.
\<close>

theorem C6_setEngine_stores_null_counterexample:
  "\<not> componentCompleted (Author_new emptyCache)
   \<and> setEngine sampleEnv (Some 7) (Author_new emptyCache)
        = Inr ((Author_new emptyCache)\<lparr>trace := [EngineChanged, DataChanged]\<rparr>)
   \<and> engine ((Author_new emptyCache)\<lparr>trace := [EngineChanged, DataChanged]\<rparr>) = None
   \<and> engine ((Author_new emptyCache)\<lparr>trace := [EngineChanged, DataChanged]\<rparr>) \<noteq> Some 7"
  by (simp add: setEngine_def qobject_cast_Engine_def resetConnections_def emit_def
        Author_new_def sampleEnv_def)

text \<open>
  C6, amended. While \<open>componentComplete()\<close> has not been called, \<open>resetConnections()\<close>
  returns at once and changes nothing, so a setter called with another value only stores
  it (\<open>setEngine\<close> stores the value cast to a quick engine, null when the object is
  none) and emits its change signal with \<open>dataChanged\<close>. From construction on, any
  sequence of operations without \<open>componentComplete()\<close> runs to its end and leaves the
  adapter without a provider, without a connection and without a single \<open>loadPerson\<close>
  request.
\<close>

theorem C6_nothing_before_componentComplete:
  assumes "\<not> componentCompleted st" and "ComponentComplete \<notin> snd ` set ops"
  shows "resetConnections env st = Inr st
       \<and> setEngine env e st =
           Inr (if engine st = e then st
                else st\<lparr>engine := qobject_cast_Engine env e,
                        trace := trace st @ [EngineChanged, DataChanged]\<rparr>)
       \<and> setProviderId env i st =
           Inr (if providerId st = i then st
                else st\<lparr>providerId := i, trace := trace st @ [ProviderIdChanged, DataChanged]\<rparr>)
       \<and> setUsername env u st =
           Inr (if username st = u then st
                else st\<lparr>username := u, trace := trace st @ [UsernameChanged, DataChanged]\<rparr>)
       \<and> (\<exists>st'. run ops (Author_new cache) = Inr st'
               \<and> \<not> componentCompleted st' \<and> provider st' = None \<and> connections st' = []
               \<and> filter isLoadPerson (trace st') = [])"
proof -
  have r: "resetConnections env st = Inr st"
    using assms(1) by (rule resetConnections_early)
  have e: "setEngine env e st =
           Inr (if engine st = e then st
                else st\<lparr>engine := qobject_cast_Engine env e,
                        trace := trace st @ [EngineChanged, DataChanged]\<rparr>)"
    using assms(1) by (simp add: setEngine_def resetConnections_def emit_def)
  have p: "setProviderId env i st =
           Inr (if providerId st = i then st
                else st\<lparr>providerId := i, trace := trace st @ [ProviderIdChanged, DataChanged]\<rparr>)"
    using assms(1) by (simp add: setProviderId_def resetConnections_def emit_def)
  have u: "setUsername env u st =
           Inr (if username st = u then st
                else st\<lparr>username := u, trace := trace st @ [UsernameChanged, DataChanged]\<rparr>)"
    using assms(1) by (simp add: setUsername_def resetConnections_def emit_def)
  have "\<exists>st'. run ops (Author_new cache) = Inr st' \<and> incomplete st'"
    using incomplete_run [OF incomplete_new assms(2)] .
  then have s: "\<exists>st'. run ops (Author_new cache) = Inr st'
               \<and> \<not> componentCompleted st' \<and> provider st' = None \<and> connections st' = []
               \<and> filter isLoadPerson (trace st') = []"
    by (auto simp: incomplete_def)
  from r e p u s show ?thesis by blast
qed

theorem C6_nothing_before_componentComplete_witness:
  "\<not> componentCompleted (Author_new emptyCache) \<and> ComponentComplete \<notin> snd ` set sampleOps
   \<and> resetConnections sampleEnv (Author_new emptyCache) = Inr (Author_new emptyCache)
   \<and> setUsername sampleEnv ''alice'' (Author_new emptyCache)
        = Inr ((Author_new emptyCache)\<lparr>username := ''alice'', trace := [UsernameChanged, DataChanged]\<rparr>)
   \<and> (\<exists>st'. run sampleOps (Author_new emptyCache) = Inr st'
           \<and> provider st' = None \<and> connections st' = [] \<and> filter isLoadPerson (trace st') = [])"
proof -
  have a: "\<not> componentCompleted (Author_new emptyCache)"
    by (simp add: Author_new_def)
  have b: "ComponentComplete \<notin> snd ` set sampleOps"
    by (simp add: sampleOps_def)
  have c: "username (Author_new emptyCache) \<noteq> ''alice''" "trace (Author_new emptyCache) = []"
    by (simp_all add: Author_new_def)
  show ?thesis
    using a b c C6_nothing_before_componentComplete
      [OF a b, of sampleEnv None "[]" "''alice''" emptyCache]
    by auto
qed

subsection \<open>Connections of a reachable adapter\<close>

lemma author_connected:
  "connectedToProvider (snd (author env st)) = connectedToProvider st"
  by (simp add: author_def connectedToProvider_def split: option.splits)

lemma resetConnections_connected:
  assumes "connectedToProvider st" and "resetConnections env st = Inr st'"
  shows "connectedToProvider st'"
  using assms
  by (auto simp: resetConnections_def resolveProvider_def connectProvider_def author_def
        connectedToProvider_def Let_def split: option.splits if_splits)

lemma resetConnections_completes:
  assumes "connections st = []" and "provider st = None" and "componentCompleted st"
    and "resetConnections env st = Inr st'"
  shows "connectedToProvider st'"
  using assms
  by (auto simp: resetConnections_def resolveProvider_def connectProvider_def author_def
        connectedToProvider_def Let_def split: option.splits if_splits)

lemma slot_connected:
  "personLoaded_slot env a st = Inr st' \<Longrightarrow> connectedToProvider st' = connectedToProvider st"
  by (auto simp: personLoaded_slot_def emit_def connectedToProvider_def split: option.splits)

lemma deliver_connected:
  "deliver env a cs st = Inr st' \<Longrightarrow> connectedToProvider st' = connectedToProvider st"
  by (induction cs arbitrary: st) (auto split: sum.splits dest: slot_connected)

lemma step_connected:
  assumes "connectedToProvider st" and "step env op st = Inr st'"
  shows "connectedToProvider st'"
proof (cases op)
  case ComponentComplete
  then have r: "resetConnections env (st\<lparr>componentCompleted := True\<rparr>) = Inr st'"
    using assms(2) by (simp add: componentComplete_def)
  show ?thesis
  proof (cases "componentCompleted st")
    case True
    then have "st\<lparr>componentCompleted := True\<rparr> = st" by simp
    then show ?thesis using r assms(1) resetConnections_connected by metis
  next
    case False
    then have "provider st = None" "connections st = []"
      using assms(1) by (auto simp: connectedToProvider_def)
    then show ?thesis
      using resetConnections_completes [OF _ _ _ r] by simp
  qed
next
  case (SetEngine e)
  then show ?thesis
    using assms
    by (auto simp: setEngine_def emit_def connectedToProvider_def
          split: if_splits sum.splits dest!: resetConnections_connected [rotated])
next
  case (SetProviderId i)
  then show ?thesis
    using assms
    by (auto simp: setProviderId_def emit_def connectedToProvider_def
          split: if_splits sum.splits dest!: resetConnections_connected [rotated])
next
  case (SetUsername u)
  then show ?thesis
    using assms
    by (auto simp: setUsername_def emit_def connectedToProvider_def
          split: if_splits sum.splits dest!: resetConnections_connected [rotated])
next
  case (PersonLoaded p a)
  then show ?thesis
    using assms deliver_connected [of env a _ st st'] by (simp add: personLoaded_def)
qed (use assms author_connected [of env st] in
      \<open>auto simp: name_def description_def homepage_def profilepage_def avatarUrl_def
            split: prod.splits option.splits\<close>)

lemma run_connected:
  "connectedToProvider st \<Longrightarrow> run ops st = Inr st' \<Longrightarrow> connectedToProvider st'"
proof (induction ops arbitrary: st)
  case Nil
  then show ?case by simp
next
  case (Cons x ops)
  then show ?case
    by (cases x) (auto split: sum.splits dest: step_connected)
qed

section \<open>Properties of KMoreTools\<close>

subsection \<open>formatString\<close>


lemma formatString_example:
  "formatString gitk ''Open with $GenericName ($DesktopEntryName), $Nam $Name''
     = ''Open with Gitk (gitk), $Nam Gitk''"
  by (simp add: formatString_def genericNameValue_def nameValue_def desktopFile_def gitk_def)











subsection \<open>menuBuilder\<close>

lemma buildersFresh_new: "buildersFresh (KMoreTools_new uid)"
  by (simp add: buildersFresh_def KMoreTools_new_def)

lemma register_builders:
  "menuBuilderMap (snd (registerServiceByDesktopEntryName env n d m k)) = menuBuilderMap k"
  "builders (snd (registerServiceByDesktopEntryName env n d m k)) = builders k"
  "nextBuilder (snd (registerServiceByDesktopEntryName env n d m k)) = nextBuilder k"
  by (simp_all add: registerServiceByDesktopEntryName_def Let_def split: kmtDesktopfile.splits)

lemma menuBuilder_fresh:
  assumes "buildersFresh k"
  shows "buildersFresh (snd (menuBuilder p k))"
proof (cases "menuBuilderMap k p")
  case None
  with assms show ?thesis
    by (fastforce simp: buildersFresh_def menuBuilder_def KMoreToolsMenuBuilder_new_def
          split: if_splits)
next
  case (Some a)
  with assms show ?thesis by (simp add: menuBuilder_def)
qed

lemma kmtStep_fresh:
  assumes "buildersFresh k"
  shows "buildersFresh (kmtStep c k)"
proof (cases c)
  case (RegisterService env n d m)
  then show ?thesis using assms by (simp add: buildersFresh_def register_builders)
next
  case (MenuBuilder p)
  then show ?thesis using assms by (simp add: menuBuilder_fresh)
qed

lemma kmtRun_fresh: "buildersFresh k \<Longrightarrow> buildersFresh (kmtRun calls k)"
  unfolding kmtRun_def by (induction calls arbitrary: k) (simp_all add: kmtStep_fresh)

lemma menuBuilder_hit:
  "menuBuilderMap (snd (menuBuilder p k)) p = Some (fst (menuBuilder p k))"
  by (simp add: menuBuilder_def split: option.splits)

lemma kmtStep_keeps:
  assumes "menuBuilderMap k p = Some a"
  shows "menuBuilderMap (kmtStep c k) p = Some a"
proof (cases c)
  case (RegisterService env n d m)
  then show ?thesis using assms by (simp add: register_builders)
next
  case (MenuBuilder q)
  then show ?thesis using assms by (auto simp: menuBuilder_def split: option.splits)
qed

lemma kmtRun_keeps:
  "menuBuilderMap k p = Some a \<Longrightarrow> menuBuilderMap (kmtRun calls k) p = Some a"
  unfolding kmtRun_def by (induction calls arbitrary: k) (simp_all add: kmtStep_keeps)

text \<open>
  C8. On a \<open>KMoreTools\<close> object that any calls have led to, the builder returned for a
  postfix \<open>p\<close> is returned again for \<open>p\<close> after any further calls, a call with another
  postfix returns another builder, and the builder returned for \<open>p\<close> is still there with
  its postfix after those calls.
\<close>

theorem C8_menuBuilder_memoized:
  assumes "k = kmtRun calls (KMoreTools_new uid)"
    and "k' = kmtRun later (snd (menuBuilder p k))"
  shows "fst (menuBuilder p k') = fst (menuBuilder p k)
       \<and> (p \<noteq> q \<longrightarrow> fst (menuBuilder q k') \<noteq> fst (menuBuilder p k))
       \<and> (\<exists>b. builders k' (fst (menuBuilder p k)) = Some b \<and> userConfigPostfix b = p)"
proof -
  let ?a = "fst (menuBuilder p k)"
  have "buildersFresh k"
    unfolding assms(1) by (rule kmtRun_fresh [OF buildersFresh_new])
  then have "buildersFresh (snd (menuBuilder p k))"
    by (rule menuBuilder_fresh)
  then have f: "buildersFresh k'"
    unfolding assms(2) by (rule kmtRun_fresh)
  have hp: "menuBuilderMap k' p = Some ?a"
    unfolding assms(2) by (rule kmtRun_keeps [OF menuBuilder_hit])
  have same: "fst (menuBuilder p k') = ?a"
    using hp by (simp add: menuBuilder_def)
  have alive: "\<exists>b. builders k' ?a = Some b \<and> userConfigPostfix b = p"
    using f hp by (simp add: buildersFresh_def)
  have lt: "?a < nextBuilder k'"
    using f hp by (simp add: buildersFresh_def)
  have other: "fst (menuBuilder q k') \<noteq> ?a" if "p \<noteq> q"
  proof (cases "menuBuilderMap k' q")
    case None
    then have "fst (menuBuilder q k') = nextBuilder k'" by (simp add: menuBuilder_def)
    with lt show ?thesis by simp
  next
    case (Some c)
    then have e: "fst (menuBuilder q k') = c" by (simp add: menuBuilder_def)
    obtain b where b: "builders k' c = Some b" "userConfigPostfix b = q"
      using f Some by (auto simp: buildersFresh_def)
    show ?thesis
    proof
      assume "fst (menuBuilder q k') = ?a"
      with e b alive have "p = q" by auto
      with that show False by simp
    qed
  qed
  from same other alive show ?thesis by blast
qed

theorem C8_menuBuilder_memoized_witness:
  "fst (menuBuilder [] (kmtRun [MenuBuilder ''b''] (snd (menuBuilder [] registeredOnce))))
     = fst (menuBuilder [] registeredOnce)
   \<and> [] \<noteq> ''b''
   \<and> fst (menuBuilder ''b'' (kmtRun [MenuBuilder ''b''] (snd (menuBuilder [] registeredOnce))))
     \<noteq> fst (menuBuilder [] registeredOnce)"
proof -
  note T = C8_menuBuilder_memoized
    [where k = registeredOnce and k' = "kmtRun [MenuBuilder ''b''] (snd (menuBuilder [] registeredOnce))"
       and p = "[]" and q = "''b''", OF registeredOnce_def refl]
  have d: "[] \<noteq> ''b''" by simp
  have o: "fst (menuBuilder ''b'' (kmtRun [MenuBuilder ''b''] (snd (menuBuilder [] registeredOnce))))
     \<noteq> fst (menuBuilder [] registeredOnce)"
    using T d by blast
  from T [THEN conjunct1] d o show ?thesis by blast
qed

subsection \<open>registerServiceByDesktopEntryName\<close>

lemma locateService_name: "desktopEntryName (locateService env n f m) = n"
  by (simp add: locateService_def split: ServiceLocatingMode.splits)

lemma filter_other_name:
  "filter (\<lambda>x. desktopEntryName x = n) (filter (\<lambda>x. desktopEntryName x \<noteq> n) xs) = []"
  by (induction xs) auto

lemma register_distinct:
  assumes "distinct (map desktopEntryName (serviceList k))"
  shows "distinct (map desktopEntryName
           (serviceList (snd (registerServiceByDesktopEntryName env n d m k))))"
proof -
  have d: "distinct (map desktopEntryName (filter (\<lambda>x. desktopEntryName x \<noteq> n) (serviceList k)))"
    using assms by (simp add: distinct_map_filter)
  have "distinct (map desktopEntryName
          (filter (\<lambda>x. desktopEntryName x \<noteq> n) (serviceList k) @ [locateService env n f m]))" for f
    using d by (auto simp: locateService_name)
  then show ?thesis
    using assms
    by (simp add: registerServiceByDesktopEntryName_def Let_def split: kmtDesktopfile.splits)
qed

lemma menuBuilder_services: "serviceList (snd (menuBuilder p k)) = serviceList k"
  by (simp add: menuBuilder_def split: option.splits)

lemma kmtRun_distinct:
  "distinct (map desktopEntryName (serviceList k))
     \<Longrightarrow> distinct (map desktopEntryName (serviceList (kmtRun calls k)))"
  unfolding kmtRun_def
proof (induction calls arbitrary: k)
  case Nil
  then show ?case by simp
next
  case (Cons c calls)
  have "distinct (map desktopEntryName (serviceList (kmtStep c k)))"
    using Cons.prems by (cases c) (simp_all add: register_distinct menuBuilder_services)
  from Cons.IH [OF this] show ?case by simp
qed

lemma register_replaces:
  assumes "registerServiceByDesktopEntryName env n d m k = (Some s, k')"
  shows "filter (\<lambda>x. desktopEntryName x = n) (serviceList k') = [s]"
  using assms
  by (auto simp: registerServiceByDesktopEntryName_def Let_def locateService_name
        filter_other_name split: kmtDesktopfile.splits)

lemma register_faulty:
  "providedDesktopfile env (if d = [] then uniqueId k else d) n = KmtFaulty
     \<Longrightarrow> registerServiceByDesktopEntryName env n d m k = (None, k)"
  by (simp add: registerServiceByDesktopEntryName_def)

text \<open>
  C9. On a \<open>KMoreTools\<close> object that any calls have led to, no two registered services
  have the same desktop-entry name. A registration whose provided desktop file is not
  faulty locates the service anew, from the system, mode and desktop file of this very
  call, returns it, and puts it in the place of whatever was registered under the name
  before: afterwards it is the one and only entry of its name, the entries of other names
  are as they were, and names are still distinct.
\<close>

theorem C9_one_entry_per_name:
  assumes "k = kmtRun calls (KMoreTools_new uid)"
    and "dir = (if d = [] then uniqueId k else d)"
    and "providedDesktopfile env dir n \<noteq> KmtFaulty"
    and "s = locateService env n (providedService (providedDesktopfile env dir n)) m"
    and "k' = k\<lparr>serviceList := filter (\<lambda>x. desktopEntryName x \<noteq> n) (serviceList k) @ [s]\<rparr>"
  shows "registerServiceByDesktopEntryName env n d m k = (Some s, k')
       \<and> distinct (map desktopEntryName (serviceList k))
       \<and> distinct (map desktopEntryName (serviceList k'))
       \<and> filter (\<lambda>x. desktopEntryName x = n) (serviceList k') = [s]
       \<and> filter (\<lambda>x. desktopEntryName x \<noteq> n) (serviceList k')
           = filter (\<lambda>x. desktopEntryName x \<noteq> n) (serviceList k)"
proof -
  have r: "registerServiceByDesktopEntryName env n d m k = (Some s, k')"
    using assms(2-5)
    by (cases "providedDesktopfile env dir n")
       (simp_all add: registerServiceByDesktopEntryName_def Let_def providedService_def)
  have a: "distinct (map desktopEntryName (serviceList k))"
    unfolding assms(1) by (rule kmtRun_distinct) (simp add: KMoreTools_new_def)
  have b: "distinct (map desktopEntryName (serviceList k'))"
    using register_distinct [OF a, of env n d m] r by simp
  have c: "filter (\<lambda>x. desktopEntryName x \<noteq> n) (serviceList k')
           = filter (\<lambda>x. desktopEntryName x \<noteq> n) (serviceList k)"
    using assms(4,5) by (simp add: locateService_name)
  from r a b c register_replaces [OF r] show ?thesis by blast
qed

theorem C9_one_entry_per_name_witness:
  "providedDesktopfile sampleKmtEnv (if [] = [] then uniqueId registeredOnce else []) ''gitk''
     \<noteq> KmtFaulty
   \<and> hd (serviceList registeredOnce) = gitk
   \<and> gitkInstalled \<noteq> gitk
   \<and> registerServiceByDesktopEntryName sampleKmtEnv ''gitk'' []
         ServiceLocatingMode_ByProvidedExecLine registeredOnce
       = (Some gitkInstalled,
          registeredOnce\<lparr>serviceList := [last (serviceList registeredOnce), gitkInstalled]\<rparr>)
   \<and> distinct (map desktopEntryName
        (serviceList (registeredOnce\<lparr>serviceList := [last (serviceList registeredOnce), gitkInstalled]\<rparr>)))
   \<and> filter (\<lambda>x. desktopEntryName x = ''gitk'')
        (serviceList (registeredOnce\<lparr>serviceList := [last (serviceList registeredOnce), gitkInstalled]\<rparr>))
       = [gitkInstalled]"
proof -
  have l: "serviceList registeredOnce
      = [gitk, \<lparr>desktopEntryName = ''kate'', isInstalled = True,
                installedService = Some \<lparr>service_name = ''Kate'', service_genericName = ''Text Editor'',
                                          service_exec = ''kate'', service_icon = ''kate''\<rparr>,
                kmtProvidedService = None, homepageUrl = []\<rparr>]"
    by (simp add: registeredOnce_def kmtRun_def registerServiceByDesktopEntryName_def
          locateService_def sampleKmtEnv_def KMoreTools_new_def gitk_def Let_def)
  have nf: "providedDesktopfile sampleKmtEnv (if [] = [] then uniqueId registeredOnce else []) ''gitk''
     \<noteq> KmtFaulty"
    by (simp add: sampleKmtEnv_def)
  have se: "gitkInstalled
      = locateService sampleKmtEnv ''gitk''
          (providedService (providedDesktopfile sampleKmtEnv
             (if [] = [] then uniqueId registeredOnce else []) ''gitk''))
          ServiceLocatingMode_ByProvidedExecLine"
    by (simp add: locateService_def providedService_def sampleKmtEnv_def gitkInstalled_def gitk_def)
  have ke: "registeredOnce\<lparr>serviceList := [last (serviceList registeredOnce), gitkInstalled]\<rparr>
      = registeredOnce\<lparr>serviceList :=
          filter (\<lambda>x. desktopEntryName x \<noteq> ''gitk'') (serviceList registeredOnce) @ [gitkInstalled]\<rparr>"
    by (simp add: l gitk_def)
  note T = C9_one_entry_per_name [OF registeredOnce_def refl nf se ke]
  have h: "hd (serviceList registeredOnce) = gitk"
    by (simp add: l)
  have d: "gitkInstalled \<noteq> gitk"
  proof
    assume "gitkInstalled = gitk"
    then have "isInstalled gitkInstalled = isInstalled gitk" by simp
    then show False by (simp add: gitkInstalled_def gitk_def)
  qed
  from nf h d T show ?thesis by blast
qed

subsection \<open>buildByAppendingToMenu\<close>

text \<open>
  C10. An item of the builder whose service is not installed is placed by
  \<open>buildByAppendingToMenu\<close> in the \<open>Not installed\<close> part of the \<open>More\<close> submenu and in
  no other part, whatever its default section and the user configuration; and no item of
  the main section of the built menu has a service that is not installed.
\<close>

theorem C10_not_installed_placement:
  assumes "i \<in> set (menuItems b)" and "registeredService i = Some s" and "\<not> isInstalled s"
  shows "i \<in> set (notInstalledSection (buildByAppendingToMenu userConfig setting b))
       \<and> i \<notin> set (mainSection (buildByAppendingToMenu userConfig setting b))
       \<and> i \<notin> set (moreSection (buildByAppendingToMenu userConfig setting b))
       \<and> (\<forall>j \<in> set (mainSection (buildByAppendingToMenu userConfig setting b)).
             \<forall>t. registeredService j = Some t \<longrightarrow> isInstalled t)"
  using assms by (auto simp: buildByAppendingToMenu_def notInstalledItem_def split: option.splits)

theorem C10_not_installed_placement_witness:
  "fst gitkMenu \<in> set (menuItems (snd gitkMenu))
   \<and> registeredService (fst gitkMenu) = Some gitk
   \<and> \<not> isInstalled gitk
   \<and> defaultLocation (fst gitkMenu) = MenuSection_Main
   \<and> fst gitkMenu \<in> set (notInstalledSection
        (buildByAppendingToMenu noConfig ConfigureDialogAccessible_Always (snd gitkMenu)))
   \<and> fst gitkMenu \<notin> set (mainSection
        (buildByAppendingToMenu noConfig ConfigureDialogAccessible_Always (snd gitkMenu)))"
proof -
  have a: "fst gitkMenu \<in> set (menuItems (snd gitkMenu))"
    by (simp add: gitkMenu_def addMenuItem_def Let_def)
  have b: "registeredService (fst gitkMenu) = Some gitk"
    by (simp add: gitkMenu_def addMenuItem_def Let_def)
  have c: "\<not> isInstalled gitk"
    by (simp add: gitk_def)
  have d: "defaultLocation (fst gitkMenu) = MenuSection_Main"
    by (simp add: gitkMenu_def addMenuItem_def Let_def)
  note T = C10_not_installed_placement
    [OF a b c, of noConfig ConfigureDialogAccessible_Always]
  from a b c d T show ?thesis by blast
qed

end
